theory Spec2Isabelle
  imports Complex_Main
begin

section \<open>Data model\<close>

text \<open>
  The point-of-sale application keeps menu items, bills, users and settings in an
  object store (\<open>src/lib/db.ts\<close>), composes a cart on the billing page and reduces
  stored bills into a summary on the reports page.

  Conventions of the embedding:
  \<^item> a JavaScript \<open>number\<close> holding money or a tax rate is a \<open>rat\<close>: arithmetic is
    exact, so rounding of IEEE doubles is outside the model;
  \<^item> a quantity, and the \<open>delta\<close> applied to it, is an \<open>int\<close> (the billing page
    only ever passes \<open>1\<close> and \<open>-1\<close>);
  \<^item> a string is a \<open>char list\<close> of code units below 256;
  \<^item> a property that may be \<open>undefined\<close> is an \<open>option\<close>;
  \<^item> the record types of \<open>@/types\<close> are read off the objects that the code builds
    (\<open>initializeDefaultData\<close>, \<open>addToCart\<close>, \<open>handleSaveBill\<close>); a field whose name
    occurs in two of them carries a prefix in one.
\<close>

record MenuItem =
  item_id :: string
  item_name :: string
  item_price :: rat
  category :: string
  description :: "string option"
  isAvailable :: bool
  item_createdAt :: string
  item_updatedAt :: string

record BillItem =
  menuItemId :: string
  name :: string
  price :: rat
  quantity :: int
  subtotal :: rat

datatype payment = Cash | Card | Upi

record Bill =
  bill_id :: string
  billNumber :: string
  items :: "BillItem list"
  bill_subtotal :: rat
  cgst :: rat
  sgst :: rat
  total :: rat
  createdBy :: string
  createdByName :: string
  createdAt :: string
  paymentMethod :: "payment option"
  customerName :: "string option"
  customerPhone :: "string option"
  bill_notes :: "string option"
  syncedToCloud :: bool

record User =
  user_id :: string
  username :: string
  passwordHash :: string
  role :: string
  user_name :: string
  user_createdAt :: string
  isActive :: bool

datatype printer_format = Mm58 | Mm80

record AppSettings =
  shopName :: string
  shopAddress :: string
  shopGST :: "string option"
  shopPhone :: "string option"
  cgstRate :: "rat option"
  sgstRate :: "rat option"
  printerFormat :: printer_format
  theme :: string
  autoSync :: bool
  currency :: string

section \<open>JavaScript string and number primitives used by the sequencer\<close>

text \<open>
  \<open>String.prototype.replace(pattern, replacement)\<close> with a string pattern replaces the
  first occurrence of the pattern. The only replacement used is the empty string, so
  the \<open>$\<close> patterns of the replacement text play no role.
\<close>

fun replace_first :: "string \<Rightarrow> string \<Rightarrow> string \<Rightarrow> string" where
  "replace_first pat rep [] = (if pat = [] then rep else [])"
| "replace_first pat rep (c # cs) =
     (if take (length pat) (c # cs) = pat then rep @ drop (length pat) (c # cs)
      else c # replace_first pat rep cs)"

text \<open>
  A number that comes out of \<open>parseInt\<close> is either \<open>NaN\<close> or an integer. The model
  keeps the integer exactly; the code holds it in a double, which is exact up to
  \<open>2 ^ 53\<close> in absolute value. Theorems about the sequencer state this bound.
\<close>

datatype jsnum = NaN | Num int

definition is_ws :: "char \<Rightarrow> bool" where
  "is_ws c = (c \<in> set [CHR 0x09, CHR 0x0A, CHR 0x0B, CHR 0x0C, CHR 0x0D, CHR 0x20, CHR 0xA0])"

definition digit_val :: "char \<Rightarrow> nat option" where
  "digit_val c =
     (let k = (of_char c :: nat) in
      if 48 \<le> k \<and> k \<le> 57 then Some (k - 48)
      else if 97 \<le> k \<and> k \<le> 122 then Some (k - 87)
      else if 65 \<le> k \<and> k \<le> 90 then Some (k - 55)
      else None)"

definition is_digit :: "nat \<Rightarrow> char \<Rightarrow> bool" where
  "is_digit R c = (case digit_val c of None \<Rightarrow> False | Some d \<Rightarrow> d < R)"

definition digits_value :: "nat \<Rightarrow> string \<Rightarrow> nat" where
  "digits_value R z = foldl (\<lambda>acc c. R * acc + the (digit_val c)) 0 z"

text \<open>
  \<open>parseInt(string)\<close> without a radix: leading white space is skipped, one sign is
  read, a prefix \<open>0x\<close> or \<open>0X\<close> selects radix 16 (radix 10 otherwise), and the
  longest run of digits of that radix is the value; no digit at all gives \<open>NaN\<close>.
  (\<open>-0\<close> is \<open>Num 0\<close>: the sequencer adds one to it and prints it.)
\<close>

definition parseInt :: "string \<Rightarrow> jsnum" where
  "parseInt s =
     (let s1 = dropWhile is_ws s;
          neg = (take 1 s1 = ''-'');
          s2 = (if take 1 s1 = ''-'' \<or> take 1 s1 = ''+'' then drop 1 s1 else s1);
          hex = (take 2 s2 = ''0x'' \<or> take 2 s2 = ''0X'');
          R = (if hex then 16 else 10);
          s3 = (if hex then drop 2 s2 else s2);
          z = takeWhile (is_digit R) s3
      in if z = [] then NaN
         else Num (if neg then - int (digits_value R z) else int (digits_value R z)))"

fun num_plus_one :: "jsnum \<Rightarrow> jsnum" where
  "num_plus_one NaN = NaN"
| "num_plus_one (Num n) = Num (n + 1)"

text \<open>\<open>String(n)\<close> for an integer \<open>n\<close> (below \<open>10 ^ 21\<close> in absolute value) and for \<open>NaN\<close>.\<close>

function dec :: "nat \<Rightarrow> string" where
  "dec n = (if n < 10 then [char_of (48 + n)] else dec (n div 10) @ [char_of (48 + n mod 10)])"
  by pat_completeness auto
termination
  by (relation "measure (\<lambda>n. n)") auto

declare dec.simps [simp del]

fun String_of :: "jsnum \<Rightarrow> string" where
  "String_of NaN = ''NaN''"
| "String_of (Num n) = (if n < 0 then ''-'' @ dec (nat (- n)) else dec (nat n))"

text \<open>
  \<open>padStart(targetLength, padString)\<close>: the pad string is repeated and cut to the
  missing length; a string that is long enough, or an empty pad string, leaves the
  receiver as it is.
\<close>

definition padStart :: "nat \<Rightarrow> string \<Rightarrow> string \<Rightarrow> string" where
  "padStart n pad s =
     (if n \<le> length s \<or> pad = [] then s
      else take (n - length s) (concat (replicate (n - length s) pad)) @ s)"

section \<open>The object store of bills (\<open>src/lib/db.ts\<close>)\<close>

text \<open>
  Modelled from the spec: the \<open>idb\<close> object store behind \<open>db.getAll\<close>, \<open>db.add\<close>,
  \<open>db.put\<close> and \<open>db.get\<close> is an external library. \<open>add\<close> fails on a key that is
  present, \<open>put\<close> replaces the record with the same key or adds the record, \<open>get\<close>
  returns the record with the key or \<open>undefined\<close>.

  The order of the records is taken from the source, not from the spec: \<open>getDB\<close>
  creates the store of bills with \<open>keyPath: 'id'\<close>, so the store holds its records in
  ascending order of their \<open>id\<close>, and \<open>getAll\<close> returns them in that order, whatever
  the order in which they were added. Two string keys are compared code unit by code
  unit, a proper prefix coming first. The bill collection is the list that \<open>getAll\<close>
  returns.
\<close>

datatype db_error = ConstraintError

fun key_less :: "string \<Rightarrow> string \<Rightarrow> bool" where
  "key_less [] [] = False"
| "key_less [] (y # ys) = True"
| "key_less (x # xs) [] = False"
| "key_less (x # xs) (y # ys) =
     ((of_char x :: nat) < of_char y \<or> (x = y \<and> key_less xs ys))"

fun insert_by_key :: "Bill \<Rightarrow> Bill list \<Rightarrow> Bill list" where
  "insert_by_key b [] = [b]"
| "insert_by_key b (x # xs) =
     (if key_less (bill_id b) (bill_id x) then b # x # xs else x # insert_by_key b xs)"

definition db_add :: "Bill \<Rightarrow> Bill list \<Rightarrow> db_error + Bill list" where
  "db_add b db =
     (if bill_id b \<in> set (map bill_id db) then Inl ConstraintError
      else Inr (insert_by_key b db))"

definition db_put :: "Bill \<Rightarrow> Bill list \<Rightarrow> Bill list" where
  "db_put b db =
     (if bill_id b \<in> set (map bill_id db)
      then map (\<lambda>x. if bill_id x = bill_id b then b else x) db
      else insert_by_key b db)"

text \<open>The records of a store are in strictly ascending order of their keys.\<close>

definition key_sorted :: "Bill list \<Rightarrow> bool" where
  "key_sorted db = sorted_wrt (\<lambda>x y. key_less (bill_id x) (bill_id y)) db"

definition db_get :: "string \<Rightarrow> Bill list \<Rightarrow> Bill option" where
  "db_get k db = find (\<lambda>x. bill_id x = k) db"

definition createBill :: "Bill \<Rightarrow> Bill list \<Rightarrow> db_error + Bill list" where
  "createBill bill db = db_add bill db"

definition getBill :: "string \<Rightarrow> Bill list \<Rightarrow> Bill option" where
  "getBill k db = db_get k db"

definition updateBill :: "Bill \<Rightarrow> Bill list \<Rightarrow> Bill list" where
  "updateBill bill db = db_put bill db"

text \<open>
  \<open>getLastBillNumber\<close>; the argument is the result of \<open>db.getAll('bills')\<close>.
\<close>

definition getLastBillNumber :: "Bill list \<Rightarrow> string" where
  "getLastBillNumber bills =
     (if length bills = 0 then ''BILL0000''
      else
        let lastBill = bills ! (length bills - 1);
            lastNumber = parseInt (replace_first ''BILL'' '''' (billNumber lastBill))
        in ''BILL'' @ padStart 4 ''0'' (String_of (num_plus_one lastNumber)))"

section \<open>The cart of the billing page\<close>

text \<open>
  \<open>addToCart\<close>, \<open>updateQuantity\<close> and \<open>removeFromCart\<close> each compute the next cart from
  the current one and hand it to \<open>setCart\<close>; the model returns the next cart.
\<close>

definition addToCart :: "MenuItem \<Rightarrow> BillItem list \<Rightarrow> BillItem list" where
  "addToCart item cart =
     (case find (\<lambda>cartItem. menuItemId cartItem = item_id item) cart of
        Some existingItem \<Rightarrow>
          map (\<lambda>cartItem.
                 if menuItemId cartItem = item_id item
                 then cartItem\<lparr>quantity := quantity cartItem + 1,
                               subtotal := of_int (quantity cartItem + 1) * price cartItem\<rparr>
                 else cartItem) cart
      | None \<Rightarrow>
          cart @ [\<lparr>menuItemId = item_id item, name = item_name item, price = item_price item,
                    quantity = 1, subtotal = item_price item\<rparr>])"

definition updateQuantity :: "string \<Rightarrow> int \<Rightarrow> BillItem list \<Rightarrow> BillItem list" where
  "updateQuantity mid delta cart =
     map (\<lambda>item.
            if menuItemId item = mid
            then (let newQuantity = quantity item + delta
                  in if newQuantity \<le> 0 then item
                     else item\<lparr>quantity := newQuantity,
                                subtotal := of_int newQuantity * price item\<rparr>)
            else item) cart"

definition removeFromCart :: "string \<Rightarrow> BillItem list \<Rightarrow> BillItem list" where
  "removeFromCart mid cart = filter (\<lambda>item. menuItemId item \<noteq> mid) cart"

text \<open>A sequence of cart operations, run from a starting cart in order.\<close>

datatype cart_op = AddToCart MenuItem | UpdateQuantity string int | RemoveFromCart string

fun apply_cart_op :: "BillItem list \<Rightarrow> cart_op \<Rightarrow> BillItem list" where
  "apply_cart_op cart (AddToCart item) = addToCart item cart"
| "apply_cart_op cart (UpdateQuantity mid delta) = updateQuantity mid delta cart"
| "apply_cart_op cart (RemoveFromCart mid) = removeFromCart mid cart"

definition run_cart_ops :: "cart_op list \<Rightarrow> BillItem list" where
  "run_cart_ops ops = foldl apply_cart_op [] ops"

definition line_ok :: "BillItem \<Rightarrow> bool" where
  "line_ok l = (1 \<le> quantity l \<and> subtotal l = of_int (quantity l) * price l)"

section \<open>Totals\<close>

text \<open>
  \<open>x || 2.5\<close> on a rate: the default is taken when the rate is \<open>undefined\<close> and also
  when it is \<open>0\<close>, which JavaScript treats as false.
\<close>

definition or_default :: "rat option \<Rightarrow> rat \<Rightarrow> rat" where
  "or_default v d = (case v of None \<Rightarrow> d | Some r \<Rightarrow> if r = 0 then d else r)"

record Totals =
  tot_subtotal :: rat
  tot_cgst :: rat
  tot_sgst :: rat
  tot_total :: rat

definition calculateTotals :: "BillItem list \<Rightarrow> AppSettings option \<Rightarrow> Totals" where
  "calculateTotals cart settings =
     (let subtotal' = foldl (\<lambda>sum item. sum + subtotal item) 0 cart;
          cgst' = subtotal' * or_default (Option.bind settings cgstRate) (5 / 2) / 100;
          sgst' = subtotal' * or_default (Option.bind settings sgstRate) (5 / 2) / 100;
          total' = subtotal' + cgst' + sgst'
      in \<lparr>tot_subtotal = subtotal', tot_cgst = cgst', tot_sgst = sgst', tot_total = total'\<rparr>)"

section \<open>Saving a bill\<close>

text \<open>
  \<open>handleSaveBill\<close> reads the cart, the form fields, the current user and the settings,
  and acts on the store, the toasts, the console and the printer. The model takes the
  clock readings (\<open>Date.now()\<close> and the ISO time stamp) as arguments, passes the form
  state and the bill collection through, and returns the effects as a list of events in
  the order in which they happen.
\<close>

record billing =
  cart :: "BillItem list"
  st_customerName :: string
  st_customerPhone :: string
  st_paymentMethod :: payment

datatype event =
    Toast string string bool
  | CreateBillCall Bill
  | PrintBill Bill AppSettings
  | ConsoleError string

definition or_undefined :: "string \<Rightarrow> string option" where
  "or_undefined s = (if s = [] then None else Some s)"

definition handleSaveBill ::
  "bool \<Rightarrow> User option \<Rightarrow> AppSettings option \<Rightarrow> nat \<Rightarrow> string \<Rightarrow> billing \<Rightarrow> Bill list
     \<Rightarrow> event list \<times> billing \<times> Bill list" where
  "handleSaveBill shouldPrint user settings now nowISO st db =
     (if length (cart st) = 0
      then ([Toast ''Empty Cart'' ''Please add items to the cart before saving'' True], st, db)
      else case (user, settings) of
        (Some u, Some s) \<Rightarrow>
          (let billNumber' = getLastBillNumber db;
               t = calculateTotals (cart st) settings;
               bill = \<lparr>bill_id = ''bill-'' @ dec now,
                       billNumber = billNumber',
                       items = cart st,
                       bill_subtotal = tot_subtotal t,
                       cgst = tot_cgst t,
                       sgst = tot_sgst t,
                       total = tot_total t,
                       createdBy = user_id u,
                       createdByName = user_name u,
                       createdAt = nowISO,
                       paymentMethod = Some (st_paymentMethod st),
                       customerName = or_undefined (st_customerName st),
                       customerPhone = or_undefined (st_customerPhone st),
                       bill_notes = None,
                       syncedToCloud = False\<rparr>
           in case createBill bill db of
                Inl e \<Rightarrow>
                  ([CreateBillCall bill, ConsoleError ''Failed to save bill:'',
                    Toast ''Error'' ''Failed to save bill'' True], st, db)
              | Inr db' \<Rightarrow>
                  ([CreateBillCall bill,
                    Toast ''Bill Saved'' (''Bill '' @ billNumber' @ '' saved successfully!'') False]
                   @ (if shouldPrint then [PrintBill bill s] else []),
                   st\<lparr>cart := [], st_customerName := [], st_customerPhone := [],
                       st_paymentMethod := Cash\<rparr>,
                   db'))
      | _ \<Rightarrow> ([Toast ''Error'' ''User or settings not found'' True], st, db))"

fun is_CreateBillCall :: "event \<Rightarrow> bool" where
  "is_CreateBillCall (CreateBillCall b) = True"
| "is_CreateBillCall _ = False"

section \<open>The summary of the reports page\<close>

definition totalSales :: "Bill list \<Rightarrow> rat" where
  "totalSales filteredBills = foldl (\<lambda>sum bill. sum + total bill) 0 filteredBills"

definition totalItems :: "Bill list \<Rightarrow> nat" where
  "totalItems filteredBills = foldl (\<lambda>sum bill. sum + length (items bill)) 0 filteredBills"

definition avgBillValue :: "Bill list \<Rightarrow> rat" where
  "avgBillValue filteredBills =
     (if length filteredBills > 0 then totalSales filteredBills / of_nat (length filteredBills)
      else 0)"

section \<open>Sample data\<close>

definition sample_bill :: "string \<Rightarrow> string \<Rightarrow> rat \<Rightarrow> Bill" where
  "sample_bill i n t =
     \<lparr>bill_id = i, billNumber = n, items = [], bill_subtotal = t, cgst = 0, sgst = 0,
      total = t, createdBy = ''user-1'', createdByName = ''Admin User'',
      createdAt = ''2024-03-15T10:00:00.000Z'', paymentMethod = Some Cash,
      customerName = None, customerPhone = None, bill_notes = None, syncedToCloud = False\<rparr>"

definition sample_item :: "string \<Rightarrow> rat \<Rightarrow> MenuItem" where
  "sample_item i p =
     \<lparr>item_id = i, item_name = ''Paneer Tikka'', item_price = p, category = ''Starters'',
      description = None, isAvailable = True,
      item_createdAt = ''2024-03-01T09:00:00.000Z'', item_updatedAt = ''2024-03-01T09:00:00.000Z''\<rparr>"

definition sample_line :: "string \<Rightarrow> rat \<Rightarrow> int \<Rightarrow> BillItem" where
  "sample_line i p q =
     \<lparr>menuItemId = i, name = ''Paneer Tikka'', price = p, quantity = q, subtotal = of_int q * p\<rparr>"

definition sample_settings :: "rat option \<Rightarrow> rat option \<Rightarrow> AppSettings" where
  "sample_settings r1 r2 =
     \<lparr>shopName = ''My Restaurant'', shopAddress = ''123 Main Street, City'',
      shopGST = Some ''GSTIN123456789'', shopPhone = None, cgstRate = r1, sgstRate = r2,
      printerFormat = Mm80, theme = ''dark'', autoSync = False, currency = ''Rs''\<rparr>"

definition sample_user :: User where
  "sample_user =
     \<lparr>user_id = ''user-1'', username = ''admin'', passwordHash = ''$2a$10$'', role = ''admin'',
      user_name = ''Admin User'', user_createdAt = ''2024-03-01T09:00:00.000Z'', isActive = True\<rparr>"

definition sample_billing :: "BillItem list \<Rightarrow> billing" where
  "sample_billing c =
     \<lparr>cart = c, st_customerName = [], st_customerPhone = [], st_paymentMethod = Upi\<rparr>"

section \<open>Sums computed by \<open>reduce\<close>\<close>

lemma foldl_add_sum_list:
  fixes f :: "'a \<Rightarrow> rat"
  shows "foldl (\<lambda>acc x. acc + f x) a xs = a + sum_list (map f xs)"
  by (induction xs arbitrary: a) (simp_all add: add.assoc)

lemma foldl_add_sum_list_nat:
  fixes f :: "'a \<Rightarrow> nat"
  shows "foldl (\<lambda>acc x. acc + f x) a xs = a + sum_list (map f xs)"
  by (induction xs arbitrary: a) (simp_all add: add.assoc)

section \<open>The sequencer\<close>

subsection \<open>Empty collection\<close>

text \<open>
  Claim C1. On an empty bill collection the sequencer is claimed to return the seed
  \<open>BILL0001\<close>, the first number of a sequence that starts at 1. The code returns
  \<open>BILL0000\<close> there: the branch for the empty collection returns its number without
  the increment that the branch for a non-empty collection applies.
\<close>

theorem getLastBillNumber_empty:
  "getLastBillNumber [] = ''BILL0000'' \<and> getLastBillNumber [] \<noteq> ''BILL0001''"
  by (simp add: getLastBillNumber_def)

subsection \<open>Stripping the prefix and reading the digits\<close>








text \<open>
  \<open>dec\<close> prints what the digits are read back as: its output consists of decimal
  digits, and their value is the number printed.
\<close>

lemma digits_value_snoc:
  "digits_value R (z @ [c]) = R * digits_value R z + the (digit_val c)"
  by (simp add: digits_value_def)

lemma digit_val_char_of:
  assumes "d < 10"
  shows "digit_val (char_of (48 + d)) = Some d"
  using assms by (simp add: digit_val_def Let_def)

lemma dec_digits: "\<forall>c \<in> set (dec n). is_digit 10 c"
proof (induction n rule: dec.induct)
  case (1 n)
  show ?case
  proof (cases "n < 10")
    case True
    then show ?thesis
      by (subst dec.simps) (simp add: is_digit_def digit_val_char_of)
  next
    case False
    have "n mod 10 < 10" by simp
    with False 1 show ?thesis
      by (subst dec.simps) (simp add: is_digit_def digit_val_char_of)
  qed
qed

lemma dec_value: "digits_value 10 (dec n) = n"
proof (induction n rule: dec.induct)
  case (1 n)
  show ?case
  proof (cases "n < 10")
    case True
    then show ?thesis
      by (subst dec.simps) (simp add: digits_value_def digit_val_char_of)
  next
    case False
    have m: "n mod 10 < 10" by simp
    from False 1 have "digits_value 10 (dec (n div 10)) = n div 10" by simp
    with False show ?thesis
      by (subst dec.simps) (simp add: digits_value_snoc digit_val_char_of [OF m])
  qed
qed


subsection \<open>The order of the stored bills\<close>


lemma key_less_trans: "key_less a b \<Longrightarrow> key_less b c \<Longrightarrow> key_less a c"
proof (induction a b arbitrary: c rule: key_less.induct)
  case 1
  then show ?case by simp
next
  case (2 y ys)
  then show ?case by (cases c) simp_all
next
  case (3 x xs)
  then show ?case by simp
next
  case (4 x xs y ys)
  then show ?case by (cases c) (auto split: if_splits)
qed

lemma key_less_total: "\<not> key_less a b \<Longrightarrow> a \<noteq> b \<Longrightarrow> key_less b a"
proof (induction a b rule: key_less.induct)
  case (4 x xs y ys)
  show ?case
  proof (cases "x = y")
    case True
    with 4 show ?thesis by auto
  next
    case False
    then have ne: "(of_char x :: nat) \<noteq> of_char y" by simp
    from "4.prems"(1) have "\<not> (of_char x :: nat) < of_char y" by simp
    with ne have "(of_char y :: nat) < of_char x" by linarith
    then show ?thesis by simp
  qed
qed simp_all

lemma set_insert_by_key: "set (insert_by_key b db) = insert b (set db)"
  by (induction db) auto

lemma insert_by_key_sorted:
  assumes "key_sorted db" and "bill_id b \<notin> set (map bill_id db)"
  shows "key_sorted (insert_by_key b db)"
  using assms
proof (induction db)
  case Nil
  then show ?case by (simp add: key_sorted_def)
next
  case (Cons x xs)
  show ?case
  proof (cases "key_less (bill_id b) (bill_id x)")
    case True
    with Cons.prems show ?thesis
      by (auto simp: key_sorted_def intro: key_less_trans)
  next
    case False
    from Cons.prems have ne: "bill_id x \<noteq> bill_id b" by auto
    with False have xb: "key_less (bill_id x) (bill_id b)"
      using key_less_total by blast
    from Cons.prems have "key_sorted xs" "bill_id b \<notin> set (map bill_id xs)"
      by (simp_all add: key_sorted_def)
    with Cons.IH have "key_sorted (insert_by_key b xs)" by simp
    with False xb Cons.prems show ?thesis
      by (auto simp: key_sorted_def set_insert_by_key)
  qed
qed

lemma createBill_key_sorted:
  assumes "key_sorted db" and "createBill b db = Inr db'"
  shows "key_sorted db'"
  using assms insert_by_key_sorted [of db b]
  by (auto simp: createBill_def db_add_def split: if_splits)

lemma updateBill_key_sorted:
  assumes "key_sorted db"
  shows "key_sorted (updateBill b db)"
proof (cases "bill_id b \<in> set (map bill_id db)")
  case True
  have "sorted_wrt (\<lambda>x y. key_less (bill_id x) (bill_id y))
          (map (\<lambda>x. if bill_id x = bill_id b then b else x) db)
        = sorted_wrt (\<lambda>x y. key_less (bill_id x) (bill_id y)) db"
    unfolding sorted_wrt_map
    by (rule arg_cong [where f = "\<lambda>P. sorted_wrt P db"]) (auto simp: fun_eq_iff)
  with True assms show ?thesis
    by (simp add: updateBill_def db_put_def key_sorted_def)
next
  case False
  with assms insert_by_key_sorted [of db b] show ?thesis
    by (simp add: updateBill_def db_put_def)
qed


subsection \<open>Non-empty collection\<close>





subsection \<open>A bill number that does not parse\<close>




section \<open>The cart\<close>

subsection \<open>Every operation keeps the lines well formed\<close>

lemma addToCart_ok:
  assumes "\<forall>l \<in> set c. line_ok l"
  shows "\<forall>l \<in> set (addToCart item c). line_ok l"
  using assms
  by (auto simp: addToCart_def line_ok_def split: option.splits)

lemma updateQuantity_ok:
  assumes "\<forall>l \<in> set c. line_ok l"
  shows "\<forall>l \<in> set (updateQuantity mid delta c). line_ok l"
  using assms
  by (auto simp: updateQuantity_def line_ok_def Let_def)

lemma removeFromCart_ok:
  assumes "\<forall>l \<in> set c. line_ok l"
  shows "\<forall>l \<in> set (removeFromCart mid c). line_ok l"
  using assms
  by (simp add: removeFromCart_def)

lemma apply_cart_op_ok:
  assumes "\<forall>l \<in> set c. line_ok l"
  shows "\<forall>l \<in> set (apply_cart_op c opn). line_ok l"
proof (cases opn)
  case (AddToCart item)
  with assms show ?thesis using addToCart_ok by simp
next
  case (UpdateQuantity mid delta)
  with assms show ?thesis using updateQuantity_ok by simp
next
  case (RemoveFromCart mid)
  with assms show ?thesis using removeFromCart_ok by simp
qed

lemma foldl_cart_ops_ok:
  assumes "\<forall>l \<in> set c. line_ok l"
  shows "\<forall>l \<in> set (foldl apply_cart_op c ops). line_ok l"
  using assms
proof (induction ops arbitrary: c)
  case Nil
  then show ?case by simp
next
  case (Cons opn ops)
  from Cons.prems have "\<forall>l \<in> set (apply_cart_op c opn). line_ok l"
    by (rule apply_cart_op_ok)
  then show ?case using Cons.IH by simp
qed

text \<open>
  Claim C2. After any sequence of \<open>addToCart\<close>, \<open>updateQuantity\<close> and
  \<open>removeFromCart\<close> from the empty cart, every line of the cart has a quantity of at
  least 1 and a subtotal equal to its quantity times its captured price.
\<close>

theorem cart_ops_invariant:
  "\<forall>l \<in> set (run_cart_ops ops). 1 \<le> quantity l \<and> subtotal l = of_int (quantity l) * price l"
proof -
  have "\<forall>l \<in> set (foldl apply_cart_op [] ops). line_ok l"
    by (rule foldl_cart_ops_ok) simp
  then show ?thesis by (simp add: run_cart_ops_def line_ok_def)
qed

theorem cart_ops_invariant_witness:
  "sample_line ''menu-2'' 200 2
     \<in> set (run_cart_ops [AddToCart (sample_item ''menu-2'' 200), AddToCart (sample_item ''menu-5'' 60),
                           AddToCart (sample_item ''menu-2'' 200), UpdateQuantity ''menu-2'' (- 2),
                           UpdateQuantity ''menu-5'' 3, RemoveFromCart ''menu-5''])
   \<and> 1 \<le> quantity (sample_line ''menu-2'' 200 2)
   \<and> subtotal (sample_line ''menu-2'' 200 2)
        = of_int (quantity (sample_line ''menu-2'' 200 2)) * price (sample_line ''menu-2'' 200 2)"
proof -
  have h: "sample_line ''menu-2'' 200 2
     \<in> set (run_cart_ops [AddToCart (sample_item ''menu-2'' 200), AddToCart (sample_item ''menu-5'' 60),
                           AddToCart (sample_item ''menu-2'' 200), UpdateQuantity ''menu-2'' (- 2),
                           UpdateQuantity ''menu-5'' 3, RemoveFromCart ''menu-5''])"
    by (simp add: run_cart_ops_def addToCart_def updateQuantity_def removeFromCart_def
        sample_item_def sample_line_def)
  show ?thesis
    using h cart_ops_invariant [rule_format, OF h] by simp
qed

subsection \<open>A change of quantity that would not stay positive\<close>

text \<open>
  Claim C8. When the line at a position of the cart belongs to the menu item and its
  quantity plus \<open>delta\<close> is at most 0, \<open>updateQuantity\<close> keeps the length of the cart
  and leaves that line as it is, at its position: it is not removed and its quantity
  and subtotal are unchanged. When no other line belongs to the menu item, the whole
  cart is unchanged.
\<close>

theorem updateQuantity_nonpositive_noop:
  assumes "i < length c"
    and "menuItemId (c ! i) = mid"
    and "quantity (c ! i) + delta \<le> 0"
  shows "length (updateQuantity mid delta c) = length c
         \<and> updateQuantity mid delta c ! i = c ! i
         \<and> c ! i \<in> set (updateQuantity mid delta c)
         \<and> ((\<forall>j < length c. menuItemId (c ! j) = mid \<longrightarrow> j = i)
              \<longrightarrow> updateQuantity mid delta c = c)"
proof -
  have len: "length (updateQuantity mid delta c) = length c"
    by (simp add: updateQuantity_def)
  have nth: "updateQuantity mid delta c ! i = c ! i"
    using assms by (simp add: updateQuantity_def Let_def)
  have mem: "c ! i \<in> set (updateQuantity mid delta c)"
    using len nth assms(1) by (metis nth_mem)
  have whole: "updateQuantity mid delta c = c"
    if uniq: "\<forall>j < length c. menuItemId (c ! j) = mid \<longrightarrow> j = i"
  proof (rule nth_equalityI)
    show "length (updateQuantity mid delta c) = length c" by (rule len)
  next
    fix j assume "j < length (updateQuantity mid delta c)"
    then have j: "j < length c" by (simp add: len)
    show "updateQuantity mid delta c ! j = c ! j"
    proof (cases "menuItemId (c ! j) = mid")
      case True
      with uniq j have "j = i" by simp
      then show ?thesis by (simp add: nth)
    next
      case False
      with j show ?thesis by (simp add: updateQuantity_def)
    qed
  qed
  from len nth mem whole show ?thesis by blast
qed

theorem updateQuantity_nonpositive_noop_witness:
  "(0::nat) < length [sample_line ''menu-2'' 200 2, sample_line ''menu-5'' 60 1]
   \<and> menuItemId ([sample_line ''menu-2'' 200 2, sample_line ''menu-5'' 60 1] ! 0) = ''menu-2''
   \<and> quantity ([sample_line ''menu-2'' 200 2, sample_line ''menu-5'' 60 1] ! 0) + (- 2) \<le> 0
   \<and> updateQuantity ''menu-2'' (- 2) [sample_line ''menu-2'' 200 2, sample_line ''menu-5'' 60 1] ! 0
        = sample_line ''menu-2'' 200 2
   \<and> updateQuantity ''menu-2'' (- 2) [sample_line ''menu-2'' 200 2, sample_line ''menu-5'' 60 1]
        = [sample_line ''menu-2'' 200 2, sample_line ''menu-5'' 60 1]"
proof -
  let ?c = "[sample_line ''menu-2'' 200 2, sample_line ''menu-5'' 60 1]"
  have h1: "(0::nat) < length ?c" by simp
  have h2: "menuItemId (?c ! 0) = ''menu-2''" by (simp add: sample_line_def)
  have h3: "quantity (?c ! 0) + (- 2) \<le> 0" by (simp add: sample_line_def)
  have u: "\<forall>j < length ?c. menuItemId (?c ! j) = ''menu-2'' \<longrightarrow> j = 0"
    by (simp add: sample_line_def less_Suc_eq nth_Cons')
  from updateQuantity_nonpositive_noop [OF h1 h2 h3] u
  have "updateQuantity ''menu-2'' (- 2) ?c ! 0 = ?c ! 0"
    and "updateQuantity ''menu-2'' (- 2) ?c = ?c"
    by blast+
  with h1 h2 h3 show ?thesis by simp
qed

section \<open>Totals of a cart\<close>

text \<open>
  With no settings, with a rate that is not set, and with a rate that is not zero, the
  totals are the sum of the line subtotals, the two taxes at their rates (2.5 for a rate
  that is not set) and the sum of the three.
\<close>

lemma calculateTotals_formulas:
  assumes "settings = None \<or> (\<exists>s. settings = Some s \<and> cgstRate s \<noteq> Some 0 \<and> sgstRate s \<noteq> Some 0)"
  shows "tot_subtotal (calculateTotals lines settings) = sum_list (map subtotal lines)"
    and "tot_cgst (calculateTotals lines settings) =
           sum_list (map subtotal lines) * (case Option.bind settings cgstRate of None \<Rightarrow> 5 / 2 | Some r \<Rightarrow> r) / 100"
    and "tot_sgst (calculateTotals lines settings) =
           sum_list (map subtotal lines) * (case Option.bind settings sgstRate of None \<Rightarrow> 5 / 2 | Some r \<Rightarrow> r) / 100"
    and "tot_total (calculateTotals lines settings) =
           tot_subtotal (calculateTotals lines settings) + tot_cgst (calculateTotals lines settings)
             + tot_sgst (calculateTotals lines settings)"
  using assms
  by (auto simp: calculateTotals_def Let_def foldl_add_sum_list or_default_def split: option.splits)

lemma calculateTotals_example:
  "calculateTotals [sample_line ''menu-2'' 200 5] (Some (sample_settings (Some (5 / 2)) (Some (5 / 2))))
     = \<lparr>tot_subtotal = 1000, tot_cgst = 25, tot_sgst = 25, tot_total = 1050\<rparr>"
  by (simp add: calculateTotals_def sample_line_def sample_settings_def or_default_def)

lemma calculateTotals_total:
  "tot_total (calculateTotals c s) =
     tot_subtotal (calculateTotals c s) + tot_cgst (calculateTotals c s) + tot_sgst (calculateTotals c s)"
  by (simp add: calculateTotals_def Let_def)

lemma calculateTotals_subtotal:
  "tot_subtotal (calculateTotals c s) = sum_list (map subtotal c)"
  by (simp add: calculateTotals_def Let_def foldl_add_sum_list)

text \<open>
  Claim C3. The totals are claimed to be \<open>tax1 = subtotal * rate1 / 100\<close> and
  \<open>tax2 = subtotal * rate2 / 100\<close> for every pair of rates, 2.5 standing in for a rate
  that is not set. A rate that is set to \<open>0\<close> is replaced by 2.5 as well: on a
  subtotal of 1000 with both rates 0 the code charges 25 and 25 and a total of 1050,
  where the claim gives 0, 0 and 1000.
\<close>

theorem calculateTotals_zero_rate:
  "tot_subtotal (calculateTotals [sample_line ''menu-2'' 200 5] (Some (sample_settings (Some 0) (Some 0)))) = 1000
   \<and> tot_cgst (calculateTotals [sample_line ''menu-2'' 200 5] (Some (sample_settings (Some 0) (Some 0)))) = 25
   \<and> tot_sgst (calculateTotals [sample_line ''menu-2'' 200 5] (Some (sample_settings (Some 0) (Some 0)))) = 25
   \<and> tot_total (calculateTotals [sample_line ''menu-2'' 200 5] (Some (sample_settings (Some 0) (Some 0)))) = 1050
   \<and> tot_cgst (calculateTotals [sample_line ''menu-2'' 200 5] (Some (sample_settings (Some 0) (Some 0))))
        \<noteq> 1000 * 0 / 100"
  by (simp add: calculateTotals_def sample_line_def sample_settings_def or_default_def)

section \<open>Saving a bill\<close>

text \<open>
  Claim C4. With an empty cart, or without a current user or settings, \<open>handleSaveBill\<close>
  ends with a single destructive toast (the toast \<open>Empty Cart\<close> for an empty cart, the
  toast \<open>User or settings not found\<close> otherwise), never calls \<open>createBill\<close>, and leaves
  the form state and the bill collection as they were.
\<close>

theorem handleSaveBill_rejects:
  assumes "cart st = [] \<or> user = None \<or> settings = None"
  shows "handleSaveBill shouldPrint user settings now nowISO st db =
           ((if cart st = []
             then [Toast ''Empty Cart'' ''Please add items to the cart before saving'' True]
             else [Toast ''Error'' ''User or settings not found'' True]), st, db)
         \<and> (\<forall>e \<in> set (fst (handleSaveBill shouldPrint user settings now nowISO st db)).
               \<not> is_CreateBillCall e)
         \<and> snd (snd (handleSaveBill shouldPrint user settings now nowISO st db)) = db"
proof (cases "cart st = []")
  case True
  then show ?thesis by (simp add: handleSaveBill_def)
next
  case False
  with assms have "user = None \<or> settings = None" by simp
  with False show ?thesis
    by (auto simp: handleSaveBill_def split: option.splits)
qed

theorem handleSaveBill_rejects_witness:
  "cart (sample_billing []) = []
   \<and> handleSaveBill True (Some sample_user) (Some (sample_settings None None)) 1710496800000
        ''2024-03-15T10:00:00.000Z'' (sample_billing []) [sample_bill ''bill-1'' ''BILL0000'' 300]
      = ([Toast ''Empty Cart'' ''Please add items to the cart before saving'' True],
         sample_billing [], [sample_bill ''bill-1'' ''BILL0000'' 300])
   \<and> handleSaveBill True None (Some (sample_settings None None)) 1710496800000
        ''2024-03-15T10:00:00.000Z'' (sample_billing [sample_line ''menu-2'' 200 5])
        [sample_bill ''bill-1'' ''BILL0000'' 300]
      = ([Toast ''Error'' ''User or settings not found'' True],
         sample_billing [sample_line ''menu-2'' 200 5], [sample_bill ''bill-1'' ''BILL0000'' 300])"
proof -
  have h1: "cart (sample_billing []) = [] \<or> Some sample_user = None
              \<or> Some (sample_settings None None) = None"
    by (simp add: sample_billing_def)
  have h2: "cart (sample_billing [sample_line ''menu-2'' 200 5]) = [] \<or> (None :: User option) = None
              \<or> Some (sample_settings None None) = None"
    by simp
  have ne: "cart (sample_billing [sample_line ''menu-2'' 200 5]) \<noteq> []"
    by (simp add: sample_billing_def)
  show ?thesis
    using handleSaveBill_rejects [OF h1, of True 1710496800000 "''2024-03-15T10:00:00.000Z''"
        "[sample_bill ''bill-1'' ''BILL0000'' 300]"]
      handleSaveBill_rejects [OF h2, of True 1710496800000 "''2024-03-15T10:00:00.000Z''"
        "[sample_bill ''bill-1'' ''BILL0000'' 300]"] ne
    by (simp add: sample_billing_def)
qed

text \<open>
  When the cart is not empty and both the user and the settings are there, the first
  thing \<open>handleSaveBill\<close> does is the call of \<open>createBill\<close>; this is what tells an
  accepted order from a rejected one.
\<close>

lemma handleSaveBill_accepts:
  assumes "cart st \<noteq> []"
  shows "is_CreateBillCall (hd (fst (handleSaveBill shouldPrint (Some u) (Some s) now nowISO st db)))"
  using assms
  unfolding handleSaveBill_def Let_def
  by (simp split: sum.splits)

lemma handleSaveBill_created:
  assumes "CreateBillCall b \<in> set (fst (handleSaveBill shouldPrint user settings now nowISO st db))"
  shows "\<exists>bn u nm ca pm cn cp nt sy.
           b = \<lparr>bill_id = ''bill-'' @ dec now, billNumber = bn, items = cart st,
                 bill_subtotal = tot_subtotal (calculateTotals (cart st) settings),
                 cgst = tot_cgst (calculateTotals (cart st) settings),
                 sgst = tot_sgst (calculateTotals (cart st) settings),
                 total = tot_total (calculateTotals (cart st) settings),
                 createdBy = u, createdByName = nm, createdAt = ca, paymentMethod = pm,
                 customerName = cn, customerPhone = cp, bill_notes = nt, syncedToCloud = sy\<rparr>"
proof (cases "cart st = []")
  case True
  with assms show ?thesis by (simp add: handleSaveBill_def)
next
  case ne: False
  show ?thesis
  proof (cases user)
    case None
    with ne assms show ?thesis by (simp add: handleSaveBill_def)
  next
    case u: (Some u)
    show ?thesis
    proof (cases settings)
      case None
      with ne u assms show ?thesis by (simp add: handleSaveBill_def)
    next
      case s: (Some s)
      from ne u s assms show ?thesis
        unfolding handleSaveBill_def Let_def
        by (simp split: sum.splits if_splits; blast)
    qed
  qed
qed

text \<open>
  Claim C6. Every bill that \<open>handleSaveBill\<close> constructs and hands to \<open>createBill\<close>
  has a total equal to its subtotal plus its two taxes, and a subtotal equal to the sum
  of the subtotals of its lines, which are the lines of the cart. The equalities are
  exact, hence hold at two decimal places.
\<close>

theorem handleSaveBill_bill_totals:
  assumes "CreateBillCall b \<in> set (fst (handleSaveBill shouldPrint user settings now nowISO st db))"
  shows "total b = bill_subtotal b + cgst b + sgst b
         \<and> bill_subtotal b = sum_list (map subtotal (items b))
         \<and> items b = cart st"
proof -
  from handleSaveBill_created [OF assms] obtain bn u nm ca pm cn cp nt sy where
    b: "b = \<lparr>bill_id = ''bill-'' @ dec now, billNumber = bn, items = cart st,
                 bill_subtotal = tot_subtotal (calculateTotals (cart st) settings),
                 cgst = tot_cgst (calculateTotals (cart st) settings),
                 sgst = tot_sgst (calculateTotals (cart st) settings),
                 total = tot_total (calculateTotals (cart st) settings),
                 createdBy = u, createdByName = nm, createdAt = ca, paymentMethod = pm,
                 customerName = cn, customerPhone = cp, bill_notes = nt, syncedToCloud = sy\<rparr>"
    by blast
  show ?thesis
    by (simp add: b calculateTotals_total calculateTotals_subtotal)
qed

theorem handleSaveBill_bill_totals_witness:
  "CreateBillCall
     ((sample_bill ''bill-17'' ''BILL0001'' 1050)
        \<lparr>items := [sample_line ''menu-2'' 200 5], bill_subtotal := 1000, cgst := 25, sgst := 25,
         paymentMethod := Some Upi\<rparr>)
     \<in> set (fst (handleSaveBill False (Some sample_user) (Some (sample_settings None None)) 17
                   ''2024-03-15T10:00:00.000Z'' (sample_billing [sample_line ''menu-2'' 200 5])
                   [sample_bill ''bill-1'' ''BILL0000'' 300]))
   \<and> (1050::rat) = 1000 + 25 + 25
   \<and> (1000::rat) = sum_list (map subtotal [sample_line ''menu-2'' 200 5])"
proof -
  have h: "CreateBillCall
     ((sample_bill ''bill-17'' ''BILL0001'' 1050)
        \<lparr>items := [sample_line ''menu-2'' 200 5], bill_subtotal := 1000, cgst := 25, sgst := 25,
         paymentMethod := Some Upi\<rparr>)
     \<in> set (fst (handleSaveBill False (Some sample_user) (Some (sample_settings None None)) 17
                   ''2024-03-15T10:00:00.000Z'' (sample_billing [sample_line ''menu-2'' 200 5])
                   [sample_bill ''bill-1'' ''BILL0000'' 300]))"
    by code_simp
  from handleSaveBill_bill_totals [OF h] h show ?thesis
    by (simp add: sample_bill_def)
qed

section \<open>Updating a stored bill\<close>

lemma find_map_replace:
  "k \<in> set (map bill_id db) \<Longrightarrow> bill_id b = k \<Longrightarrow>
   find (\<lambda>x. bill_id x = k) (map (\<lambda>x. if bill_id x = k then b else x) db) = Some b"
  by (induction db) auto

lemma find_map_other:
  "k' \<noteq> bill_id b \<Longrightarrow>
   find (\<lambda>x. bill_id x = k') (map (\<lambda>x. if bill_id x = bill_id b then b else x) db)
     = find (\<lambda>x. bill_id x = k') db"
  by (induction db) auto

lemma find_insert_new:
  "k \<notin> set (map bill_id db) \<Longrightarrow> bill_id b = k \<Longrightarrow>
   find (\<lambda>x. bill_id x = k) (insert_by_key b db) = Some b"
  by (induction db) auto

lemma find_insert_other:
  "k' \<noteq> bill_id b \<Longrightarrow>
   find (\<lambda>x. bill_id x = k') (insert_by_key b db) = find (\<lambda>x. bill_id x = k') db"
  by (induction db) auto

text \<open>
  Claim C9, as stated: \<open>updateBill\<close> leaves the subtotal, the taxes and the total of a
  stored bill unchanged. The code stores the bill it is given in place of the stored
  one: a bill with the same identifier and a total of 1 replaces a stored total of 300.
\<close>

theorem updateBill_total_counterexample:
  "getBill ''bill-1'' [sample_bill ''bill-1'' ''BILL0000'' 300] = Some (sample_bill ''bill-1'' ''BILL0000'' 300)
   \<and> getBill ''bill-1'' (updateBill (sample_bill ''bill-1'' ''BILL0000'' 1) [sample_bill ''bill-1'' ''BILL0000'' 300])
       = Some (sample_bill ''bill-1'' ''BILL0000'' 1)
   \<and> total (sample_bill ''bill-1'' ''BILL0000'' 1) \<noteq> total (sample_bill ''bill-1'' ''BILL0000'' 300)
   \<and> bill_subtotal (sample_bill ''bill-1'' ''BILL0000'' 1) \<noteq> bill_subtotal (sample_bill ''bill-1'' ''BILL0000'' 300)"
  by (simp add: getBill_def db_get_def updateBill_def db_put_def sample_bill_def)

text \<open>
  Claim C9, amended. \<open>updateBill\<close> replaces the whole record: afterwards the bill
  stored under the identifier of the argument is the argument itself, with every field
  as the caller gave it; the bill under any other identifier is unchanged, and a
  replacement does not change the number of stored bills.
\<close>

theorem updateBill_replaces:
  "getBill (bill_id b) (updateBill b db) = Some b
   \<and> (\<forall>k. k \<noteq> bill_id b \<longrightarrow> getBill k (updateBill b db) = getBill k db)
   \<and> (bill_id b \<in> set (map bill_id db) \<longrightarrow> length (updateBill b db) = length db)"
proof (cases "bill_id b \<in> set (map bill_id db)")
  case True
  then show ?thesis
    using find_map_replace [OF True refl] find_map_other [of _ b db]
    by (simp add: getBill_def db_get_def updateBill_def db_put_def)
next
  case False
  then show ?thesis
    using find_insert_new [OF False refl] find_insert_other [of _ b db]
    by (simp add: getBill_def db_get_def updateBill_def db_put_def)
qed

theorem updateBill_replaces_witness:
  "''bill-2'' \<noteq> bill_id (sample_bill ''bill-1'' ''BILL0000'' 1)
   \<and> bill_id (sample_bill ''bill-1'' ''BILL0000'' 1)
        \<in> set (map bill_id [sample_bill ''bill-1'' ''BILL0000'' 300, sample_bill ''bill-2'' ''BILL0001'' 200])
   \<and> getBill ''bill-1'' (updateBill (sample_bill ''bill-1'' ''BILL0000'' 1)
        [sample_bill ''bill-1'' ''BILL0000'' 300, sample_bill ''bill-2'' ''BILL0001'' 200])
       = Some (sample_bill ''bill-1'' ''BILL0000'' 1)
   \<and> getBill ''bill-2'' (updateBill (sample_bill ''bill-1'' ''BILL0000'' 1)
        [sample_bill ''bill-1'' ''BILL0000'' 300, sample_bill ''bill-2'' ''BILL0001'' 200])
       = Some (sample_bill ''bill-2'' ''BILL0001'' 200)
   \<and> length (updateBill (sample_bill ''bill-1'' ''BILL0000'' 1)
        [sample_bill ''bill-1'' ''BILL0000'' 300, sample_bill ''bill-2'' ''BILL0001'' 200]) = 2"
proof -
  let ?b = "sample_bill ''bill-1'' ''BILL0000'' 1"
  let ?db = "[sample_bill ''bill-1'' ''BILL0000'' 300, sample_bill ''bill-2'' ''BILL0001'' 200]"
  have h1: "''bill-2'' \<noteq> bill_id ?b" by (simp add: sample_bill_def)
  have h2: "bill_id ?b \<in> set (map bill_id ?db)" by (simp add: sample_bill_def)
  have g: "getBill ''bill-2'' ?db = Some (sample_bill ''bill-2'' ''BILL0001'' 200)"
    by (simp add: getBill_def db_get_def sample_bill_def)
  have i: "bill_id ?b = ''bill-1''" by (simp add: sample_bill_def)
  note t = updateBill_replaces [of ?b ?db]
  from t have a: "getBill (bill_id ?b) (updateBill ?b ?db) = Some ?b" by blast
  from t h1 have c: "getBill ''bill-2'' (updateBill ?b ?db) = getBill ''bill-2'' ?db" by blast
  from t h2 have l: "length (updateBill ?b ?db) = length ?db" by blast
  from a i have a': "getBill ''bill-1'' (updateBill ?b ?db) = Some ?b" by simp
  from h1 h2 a' c g l show ?thesis by simp
qed

section \<open>The summary of the reports page\<close>

text \<open>
  Claim C10. For every list of filtered bills the total sales are the sum of the bill
  totals, the average bill value is the total sales divided by the number of bills and
  \<open>0\<close> for no bills, and the total item count is the sum of the numbers of line
  entries of the bills (not of their quantities); on the empty list all of them are 0.
  The bill count is the length of the list itself.
\<close>

theorem summary_correct:
  "totalSales bills = sum_list (map total bills)
   \<and> totalItems bills = sum_list (map (\<lambda>b. length (items b)) bills)
   \<and> avgBillValue bills =
        (if length bills = 0 then 0 else sum_list (map total bills) / of_nat (length bills))
   \<and> totalSales [] = 0 \<and> totalItems [] = 0 \<and> avgBillValue [] = 0"
  by (simp add: totalSales_def totalItems_def avgBillValue_def foldl_add_sum_list
      foldl_add_sum_list_nat)

theorem summary_correct_witness:
  "totalSales [sample_bill ''bill-1'' ''BILL0000'' 300, sample_bill ''bill-2'' ''BILL0001'' 200] = 500
   \<and> avgBillValue [sample_bill ''bill-1'' ''BILL0000'' 300, sample_bill ''bill-2'' ''BILL0001'' 200] = 250
   \<and> totalItems [(sample_bill ''bill-1'' ''BILL0000'' 300)\<lparr>items := [sample_line ''menu-2'' 100 3]\<rparr>] = 1"
  using summary_correct [of "[sample_bill ''bill-1'' ''BILL0000'' 300, sample_bill ''bill-2'' ''BILL0001'' 200]"]
    summary_correct [of "[(sample_bill ''bill-1'' ''BILL0000'' 300)\<lparr>items := [sample_line ''menu-2'' 100 3]\<rparr>]"]
  by (simp add: sample_bill_def)

end
